theory Spec2Isabelle
  imports Complex_Main "HOL-Library.Word" "HOL-Library.Multiset"
begin

section \<open>Double-precision values\<close>

text \<open>
  The library computes on C++ \<open>double\<close>. A double is modelled as a real number, one of
  the two infinities, or not-a-number (the marker of a missing sample). Arithmetic
  follows IEEE 754 on these four kinds of value; rounding, overflow of a finite result
  to an infinity and the sign of zero are not modelled (a finite result is the exact
  real, and every zero is \<open>+0\<close>).
\<close>

datatype dbl = Fin real | PInf | MInf | NaN

fun isnan :: "dbl \<Rightarrow> bool" where
  "isnan NaN = True"
| "isnan _ = False"

text \<open>\<open>a == b\<close> on doubles: not-a-number equals nothing, itself included.\<close>

fun deq :: "dbl \<Rightarrow> dbl \<Rightarrow> bool" where
  "deq NaN _ = False"
| "deq _ NaN = False"
| "deq a b = (a = b)"

definition inf_of_sign :: "real \<Rightarrow> dbl" where
  "inf_of_sign x = (if x = 0 then NaN else if 0 < x then PInf else MInf)"

fun dneg :: "dbl \<Rightarrow> dbl" where
  "dneg (Fin x) = Fin (- x)"
| "dneg PInf = MInf"
| "dneg MInf = PInf"
| "dneg NaN = NaN"

fun dadd :: "dbl \<Rightarrow> dbl \<Rightarrow> dbl" where
  "dadd NaN _ = NaN"
| "dadd _ NaN = NaN"
| "dadd (Fin x) (Fin y) = Fin (x + y)"
| "dadd PInf MInf = NaN"
| "dadd MInf PInf = NaN"
| "dadd PInf _ = PInf"
| "dadd _ PInf = PInf"
| "dadd MInf _ = MInf"
| "dadd _ MInf = MInf"

definition dsub :: "dbl \<Rightarrow> dbl \<Rightarrow> dbl" where
  "dsub a b = dadd a (dneg b)"

fun dmul :: "dbl \<Rightarrow> dbl \<Rightarrow> dbl" where
  "dmul NaN _ = NaN"
| "dmul _ NaN = NaN"
| "dmul (Fin x) (Fin y) = Fin (x * y)"
| "dmul (Fin x) PInf = inf_of_sign x"
| "dmul (Fin x) MInf = inf_of_sign (- x)"
| "dmul PInf (Fin y) = inf_of_sign y"
| "dmul MInf (Fin y) = inf_of_sign (- y)"
| "dmul PInf PInf = PInf"
| "dmul PInf MInf = MInf"
| "dmul MInf PInf = MInf"
| "dmul MInf MInf = PInf"

fun ddiv :: "dbl \<Rightarrow> dbl \<Rightarrow> dbl" where
  "ddiv NaN _ = NaN"
| "ddiv _ NaN = NaN"
| "ddiv (Fin x) (Fin y) = (if y = 0 then inf_of_sign x else Fin (x / y))"
| "ddiv (Fin x) _ = Fin 0"
| "ddiv PInf (Fin y) = (if 0 \<le> y then PInf else MInf)"
| "ddiv MInf (Fin y) = (if 0 \<le> y then MInf else PInf)"
| "ddiv _ _ = NaN"

fun dabs :: "dbl \<Rightarrow> dbl" where
  "dabs (Fin x) = Fin \<bar>x\<bar>"
| "dabs PInf = PInf"
| "dabs MInf = PInf"
| "dabs NaN = NaN"

fun dsqrt :: "dbl \<Rightarrow> dbl" where
  "dsqrt (Fin x) = (if x < 0 then NaN else Fin (sqrt x))"
| "dsqrt PInf = PInf"
| "dsqrt MInf = NaN"
| "dsqrt NaN = NaN"

text \<open>
  \<open>std::pow(val, exponent)\<close> for an exponent that is the conversion of an \<open>int\<close>
  (the only exponents \<open>structure_function\<close> passes). \<open>pow(x, 0)\<close> is 1 for every
  \<open>x\<close>, not-a-number included.
\<close>

fun dpow :: "dbl \<Rightarrow> int \<Rightarrow> dbl" where
  "dpow a n =
     (if n = 0 then Fin 1
      else case a of
        NaN \<Rightarrow> NaN
      | Fin x \<Rightarrow> (if 0 < n then Fin (x ^ nat n)
                  else if x = 0 then PInf else Fin (1 / x ^ nat (- n)))
      | PInf \<Rightarrow> (if 0 < n then PInf else Fin 0)
      | MInf \<Rightarrow> (if 0 < n then (if even n then PInf else MInf) else Fin 0))"

text \<open>The conversion of an \<open>int\<close> to \<open>double\<close>.\<close>

definition dbl_of_int :: "int \<Rightarrow> dbl" where
  "dbl_of_int n = Fin (real_of_int n)"

type_synonym vector_2d = "dbl list list"

section \<open>Containers and loops\<close>

text \<open>
  \<open>v[n]\<close> on a \<open>std::vector\<close> with \<open>n\<close> out of range is undefined behaviour:
  \<open>None\<close> stands for it, and every function that subscripts returns an option.
\<close>

definition vec_at :: "'a list \<Rightarrow> nat \<Rightarrow> 'a option" where
  "vec_at v n = (if n < length v then Some (v ! n) else None)"

definition vec_at2 :: "vector_2d \<Rightarrow> nat \<Rightarrow> nat \<Rightarrow> dbl option" where
  "vec_at2 input_array y x = (case vec_at input_array y of None \<Rightarrow> None | Some row \<Rightarrow> vec_at row x)"

text \<open>
  A \<open>for\<close> loop over the values \<open>ks\<close> whose body updates the state \<open>s\<close> or runs
  into undefined behaviour. The OpenMP regions are modelled by their execution on one
  thread, in loop order.
\<close>

fun for_each :: "'a list \<Rightarrow> ('a \<Rightarrow> 's \<Rightarrow> 's option) \<Rightarrow> 's \<Rightarrow> 's option" where
  "for_each [] body s = Some s"
| "for_each (k # ks) body s = (case body k s of None \<Rightarrow> None | Some s' \<Rightarrow> for_each ks body s')"

section \<open>Reductions (stats.cpp)\<close>

text \<open>
  \<open>std::accumulate\<close> is a left fold. Counters of C++ type \<open>int\<close> are mathematical
  integers here: containers of \<open>2^31\<close> or more elements are outside the model.
\<close>

definition mean :: "dbl list \<Rightarrow> dbl" where
  "mean vals =
     (let total = foldl (\<lambda>total val. if isnan val then total else dadd total val) (Fin 0) vals;
          size = int (length (filter (\<lambda>val. \<not> isnan val) vals))
      in ddiv total (dbl_of_int size))"

definition mean_2d :: "vector_2d \<Rightarrow> dbl" where
  "mean_2d vals =
     (let (total, size) =
            foldl (\<lambda>(total, size) val_vector.
                     let result = foldl (\<lambda>acc val. if isnan val then acc
                                                     else (dadd (fst acc) val, snd acc + 1))
                                        (Fin 0, 0::int) val_vector
                     in (dadd total (fst result), size + snd result))
                  (Fin 0, 0::int) vals
      in ddiv total (dbl_of_int size))"

definition sum_vec :: "dbl list \<Rightarrow> dbl" where
  "sum_vec vals = foldl (\<lambda>acc val. dadd acc val) (Fin 0) vals"

definition sum_2d :: "vector_2d \<Rightarrow> dbl" where
  "sum_2d vals =
     foldl (\<lambda>acc val_vector.
              let inner_result =
                    foldl (\<lambda>inner_acc val. if isnan val then inner_acc else dadd inner_acc val)
                          (Fin 0) val_vector
              in dadd acc inner_result)
           (Fin 0) vals"

definition pow :: "dbl list \<Rightarrow> int \<Rightarrow> dbl list" where
  "pow vals exponent = (if exponent = 1 then vals else map (\<lambda>val. dpow val exponent) vals)"

definition variance :: "dbl list \<Rightarrow> dbl" where
  "variance vals =
     (let mean_val = mean vals;
          result = foldl (\<lambda>acc val. if isnan val then acc
                                     else (dadd (fst acc) (dmul (dsub val mean_val) (dsub val mean_val)),
                                           snd acc + 1))
                         (Fin 0, 0::int) vals
      in ddiv (fst result) (dbl_of_int (snd result)))"

definition variance_2d :: "vector_2d \<Rightarrow> dbl" where
  "variance_2d vals =
     (let mean_val = mean_2d vals;
          result =
            foldl (\<lambda>acc val_vector.
                     let inner_result =
                           foldl (\<lambda>inner_acc val. if isnan val then inner_acc
                                    else (dadd (fst inner_acc)
                                               (dmul (dsub val mean_val) (dsub val mean_val)),
                                          snd inner_acc + 1))
                                 (fst acc, snd acc) val_vector
                     in (fst inner_result, snd inner_result))
                  (Fin 0, 0::int) vals
      in ddiv (fst result) (dbl_of_int (snd result)))"

definition standard_deviation :: "dbl list \<Rightarrow> dbl" where
  "standard_deviation vals = (let variance_val = variance vals in dsqrt variance_val)"

text \<open>
  \<open>subtract_mean\<close> (stats.cpp) is the one function of the library that writes to a
  grid: it returns the grid as it leaves it.
\<close>

definition subtract_mean :: "vector_2d \<Rightarrow> vector_2d option" where
  "subtract_mean input_array =
     (case vec_at input_array 0 of
        None \<Rightarrow> None
      | Some row0 \<Rightarrow>
          let height = length input_array; width = length row0;
              mean_value = mean_2d input_array in
          for_each [0..<height] (\<lambda>y.
            for_each [0..<width] (\<lambda>x grid.
              case vec_at2 grid y x of
                None \<Rightarrow> None
              | Some v \<Rightarrow> Some (grid[y := (grid ! y)[x := dsub v mean_value]])))
          input_array)"

section \<open>The pairwise enumerator (tools.cpp)\<close>

text \<open>
  The loop indices are \<open>size_t\<close>: the differences and squares of line 114 are computed
  modulo \<open>2^64\<close>, and the sum is converted to \<open>double\<close> for \<open>sqrt\<close>.
\<close>

definition pair_distance :: "nat \<Rightarrow> nat \<Rightarrow> nat \<Rightarrow> nat \<Rightarrow> dbl" where
  "pair_distance x y i j =
     (let dx = (word_of_nat i - word_of_nat x :: 64 word);
          dy = (word_of_nat j - word_of_nat y :: 64 word)
      in dsqrt (Fin (real (unat (dx * dx + dy * dy)))))"

text \<open>The size of line 99, computed in \<open>size_t\<close>, which each thread reserves.\<close>

definition max_possible_size :: "nat \<Rightarrow> nat \<Rightarrow> nat" where
  "max_possible_size height width =
     unat ((word_of_nat height * word_of_nat width * (word_of_nat height * word_of_nat width)
            :: 64 word) div 2)"

text \<open>
  The four loops of lines 108-120, appending to the buffer of the thread; \<open>None\<close> when a
  subscript is out of range.
\<close>

definition pair_loops ::
  "vector_2d \<Rightarrow> (dbl \<Rightarrow> dbl \<Rightarrow> dbl) \<Rightarrow> nat \<Rightarrow> nat \<Rightarrow> (dbl \<times> dbl) list option" where
  "pair_loops input_array function height width =
     for_each [0..<height] (\<lambda>y.
       for_each [0..<width] (\<lambda>x acc.
         case vec_at2 input_array y x of
           None \<Rightarrow> None
         | Some a \<Rightarrow>
             if isnan a then Some acc
             else for_each [y..<height] (\<lambda>j.
                    for_each [(if j = y then x else 0)..<width] (\<lambda>i acc.
                      case vec_at2 input_array j i of
                        None \<Rightarrow> None
                      | Some b \<Rightarrow>
                          if isnan b then Some acc
                          else Some (acc @ [(pair_distance x y i j, function a b)])))
                  acc))
     []"

text \<open>
  \<open>apply_vector_map\<close> ends in one of three ways: it returns the samples; it runs into
  undefined behaviour (an empty or ragged grid); or an allocation throws inside the
  parallel region, which terminates the process. \<open>capacity\<close> is the largest number of
  samples a vector can be given on the machine at hand: \<open>reserve\<close> (line 105) throws
  when it asks for more, before any cell is read, and so does \<open>push_back\<close> when the
  buffer grows beyond it. On one thread \<open>omp_get_num_threads()\<close> is 1.
\<close>

datatype failure = Undefined_Behaviour | Allocation_Failure

definition apply_vector_map ::
  "nat \<Rightarrow> vector_2d \<Rightarrow> (dbl \<Rightarrow> dbl \<Rightarrow> dbl) \<Rightarrow> failure + (dbl \<times> dbl) list" where
  "apply_vector_map capacity input_array function =
     (case vec_at input_array 0 of
        None \<Rightarrow> Inl Undefined_Behaviour
      | Some row0 \<Rightarrow>
          let height = length input_array; width = length row0 in
          if capacity < max_possible_size height width div 1 then Inl Allocation_Failure
          else
            (case pair_loops input_array function height width of
               None \<Rightarrow> Inl Undefined_Behaviour
             | Some thread_single_dists_and_vals \<Rightarrow>
                 if capacity < length thread_single_dists_and_vals then Inl Allocation_Failure
                 else Inr thread_single_dists_and_vals))"

definition multiply_pairs :: "nat \<Rightarrow> vector_2d \<Rightarrow> failure + (dbl \<times> dbl) list" where
  "multiply_pairs capacity input_array = apply_vector_map capacity input_array (\<lambda>a b. dmul a b)"

definition subtract_pairs :: "nat \<Rightarrow> vector_2d \<Rightarrow> failure + (dbl \<times> dbl) list" where
  "subtract_pairs capacity input_array =
     apply_vector_map capacity input_array (\<lambda>a b. dabs (dsub a b))"

section \<open>The distance-bucketing aggregator (tools.cpp)\<close>

text \<open>
  A \<open>std::unordered_map<double, std::vector<double>>\<close> is a list of buckets (key,
  values) in which no two keys are equal under \<open>==\<close>. The order of iteration of the
  container is unspecified; the model iterates in order of insertion.
\<close>

type_synonym double_unordered_map = "(dbl \<times> dbl list) list"

fun find_key :: "dbl \<Rightarrow> double_unordered_map \<Rightarrow> nat option" where
  "find_key k [] = None"
| "find_key k (entry # m) =
     (if deq (fst entry) k then Some 0 else map_option Suc (find_key k m))"

text \<open>
  \<open>m[k]\<close>: the position of the bucket of key \<open>k\<close>, inserted empty when no key of the
  map equals \<open>k\<close> (so a not-a-number key inserts a new bucket at every call).
\<close>

definition subscript :: "double_unordered_map \<Rightarrow> dbl \<Rightarrow> double_unordered_map \<times> nat" where
  "subscript m k =
     (case find_key k m of Some n \<Rightarrow> (m, n) | None \<Rightarrow> (m @ [(k, [])], length m))"

definition append_at :: "double_unordered_map \<Rightarrow> nat \<Rightarrow> dbl list \<Rightarrow> double_unordered_map" where
  "append_at m n vs = m[n := (fst (m ! n), snd (m ! n) @ vs)]"

text \<open>Line 24: \<open>local[dist_and_val[0]].push_back(dist_and_val[1])\<close>.\<close>

definition local_insert :: "double_unordered_map \<Rightarrow> dbl \<times> dbl \<Rightarrow> double_unordered_map" where
  "local_insert local_map dist_and_val =
     (let (m, n) = subscript local_map (fst dist_and_val) in append_at m n [snd dist_and_val])"

text \<open>
  Lines 30-31: \<open>regrouped[k].insert(regrouped[k].end(), vals.begin(), vals.end())\<close>.
  The statement subscripts the map twice, and inserts into the bucket of the first call.
  For a key that is a number both calls give the same bucket. For a not-a-number key
  the second call inserts one more bucket, which stays empty (the position it yields is
  the end of an empty vector, as is the end of the new bucket of the first call).
\<close>

definition merge_bucket :: "double_unordered_map \<Rightarrow> dbl \<times> dbl list \<Rightarrow> double_unordered_map" where
  "merge_bucket regrouped_vals pair =
     (let (m1, a) = subscript regrouped_vals (fst pair);
          (m2, b) = subscript m1 (fst pair)
      in append_at m2 a (snd pair))"

definition regroup_distance_thread_local ::
  "(dbl \<times> dbl) list \<Rightarrow> double_unordered_map \<Rightarrow> double_unordered_map" where
  "regroup_distance_thread_local single_dists_and_vals_1d regrouped_vals =
     (let local_map = foldl local_insert [] single_dists_and_vals_1d
      in foldl merge_bucket regrouped_vals local_map)"

section \<open>The structure function (vsf.cpp)\<close>

text \<open>
  The objects \<open>structure_function\<close> works on: the caller's grid, which it receives by
  reference, and its own vectors and map, which start empty. Each statement of the body
  is a function on this state.
\<close>

record sf_state =
  input_array :: vector_2d
  single_dists_and_vals_1d :: "(dbl \<times> dbl) list"
  regrouped_vals :: double_unordered_map
  output_array :: vector_2d

text \<open>The body of the loop over the buckets (lines 40-54), appending to the output.\<close>

definition reduce_bucket :: "int \<Rightarrow> dbl \<Rightarrow> vector_2d \<Rightarrow> dbl \<times> dbl list \<Rightarrow> vector_2d" where
  "reduce_bucket order variance_val local_output entry =
     (let dist = fst entry; vals = snd entry in
      if deq dist (Fin 0) then local_output
      else
        let pow_values = pow vals order; N = int (length pow_values) in
        if N = 1 then local_output
        else
          let mean_val = mean pow_values;
              std_val = standard_deviation pow_values;
              structure = ddiv mean_val variance_val;
              structure_uncertainty =
                ddiv std_val (dmul variance_val (dsqrt (dbl_of_int (N - 1))))
          in local_output @ [[dist, structure, structure_uncertainty]])"

definition sf_enumerate :: "nat \<Rightarrow> sf_state \<Rightarrow> failure + sf_state" where
  "sf_enumerate capacity s =
     (case subtract_pairs capacity (input_array s) of
        Inl e \<Rightarrow> Inl e
      | Inr v \<Rightarrow> Inr (s\<lparr>single_dists_and_vals_1d := v\<rparr>))"

definition sf_regroup :: "sf_state \<Rightarrow> sf_state" where
  "sf_regroup s =
     s\<lparr>regrouped_vals :=
          regroup_distance_thread_local (single_dists_and_vals_1d s) (regrouped_vals s)\<rparr>"

definition sf_reduce :: "int \<Rightarrow> sf_state \<Rightarrow> sf_state" where
  "sf_reduce order s =
     (let variance_val = variance_2d (input_array s);
          local_result = foldl (reduce_bucket order variance_val) [] (regrouped_vals s)
      in s\<lparr>output_array := output_array s @ local_result\<rparr>)"

definition structure_function_run :: "nat \<Rightarrow> int \<Rightarrow> sf_state \<Rightarrow> failure + sf_state" where
  "structure_function_run capacity order s =
     (case sf_enumerate capacity s of
        Inl e \<Rightarrow> Inl e
      | Inr s1 \<Rightarrow> Inr (sf_reduce order (sf_regroup s1)))"

definition sf_entry :: "vector_2d \<Rightarrow> sf_state" where
  "sf_entry grid =
     \<lparr>input_array = grid, single_dists_and_vals_1d = [], regrouped_vals = [], output_array = []\<rparr>"

definition structure_function :: "nat \<Rightarrow> vector_2d \<Rightarrow> int \<Rightarrow> failure + vector_2d" where
  "structure_function capacity grid order =
     map_sum id output_array (structure_function_run capacity order (sf_entry grid))"

section \<open>Shapes and the pairs of the specification\<close>

definition rectangular :: "vector_2d \<Rightarrow> bool" where
  "rectangular grid = (grid \<noteq> [] \<and> list_all (\<lambda>row. length row = length (hd grid)) grid)"

text \<open>The pairs of cells in the order the four loops visit them.\<close>

definition visited_pairs :: "vector_2d \<Rightarrow> ((nat \<times> nat) \<times> (nat \<times> nat)) list" where
  "visited_pairs grid =
     (let height = length grid; width = length (hd grid) in
      [((x, y), (i, j)).
         y \<leftarrow> [0..<height], x \<leftarrow> [0..<width], \<not> isnan (grid ! y ! x),
         j \<leftarrow> [y..<height], i \<leftarrow> [(if j = y then x else 0)..<width], \<not> isnan (grid ! j ! i)])"

text \<open>
  The pairs as the specification describes them: two cells inside the grid, neither
  missing, the second not before the first in row-major order.
\<close>

definition spec_pairs :: "vector_2d \<Rightarrow> ((nat \<times> nat) \<times> (nat \<times> nat)) set" where
  "spec_pairs grid =
     {((x, y), (i, j)).
        y < length grid \<and> j < length grid \<and> x < length (hd grid) \<and> i < length (hd grid)
        \<and> \<not> isnan (grid ! y ! x) \<and> \<not> isnan (grid ! j ! i)
        \<and> (y < j \<or> (y = j \<and> x \<le> i))}"

definition sample_of ::
  "vector_2d \<Rightarrow> (dbl \<Rightarrow> dbl \<Rightarrow> dbl) \<Rightarrow> (nat \<times> nat) \<times> (nat \<times> nat) \<Rightarrow> dbl \<times> dbl" where
  "sample_of grid function p =
     (case p of ((x, y), (i, j)) \<Rightarrow>
        (pair_distance x y i j, function (grid ! y ! x) (grid ! j ! i)))"

text \<open>The samples the two inner loops append for the first cell \<open>(x, y)\<close>.\<close>

definition inner_samples ::
  "vector_2d \<Rightarrow> (dbl \<Rightarrow> dbl \<Rightarrow> dbl) \<Rightarrow> nat \<Rightarrow> nat \<Rightarrow> (dbl \<times> dbl) list" where
  "inner_samples grid function x y =
     concat (map (\<lambda>j. concat (map (\<lambda>i. if isnan (grid ! j ! i) then []
                                          else [(pair_distance x y i j,
                                                 function (grid ! y ! x) (grid ! j ! i))])
                                  [(if j = y then x else 0)..<length (hd grid)]))
                 [y..<length grid])"

text \<open>The reservation and the samples of a grid fit in the memory of the machine.\<close>

definition fits :: "nat \<Rightarrow> vector_2d \<Rightarrow> bool" where
  "fits capacity grid =
     (max_possible_size (length grid) (length (hd grid)) \<le> capacity
      \<and> length (visited_pairs grid) \<le> capacity)"

text \<open>A row of \<open>2^32 + 1\<close> cells of which only the first and the last hold a sample.\<close>

definition wide_grid :: vector_2d where
  "wide_grid = [Fin 1 # replicate 4294967295 NaN @ [Fin 1]]"

text \<open>The row the reducer appends for a bucket it does not skip.\<close>

definition row_of :: "int \<Rightarrow> dbl \<Rightarrow> dbl \<times> dbl list \<Rightarrow> dbl list" where
  "row_of order variance_val entry =
     [fst entry, ddiv (mean (pow (snd entry) order)) variance_val,
      ddiv (standard_deviation (pow (snd entry) order))
           (dmul variance_val (dsqrt (dbl_of_int (int (length (pow (snd entry) order)) - 1))))]"

text \<open>Two properties of a map: no bucket is empty; no key is not-a-number.\<close>

definition buckets_nonempty :: "double_unordered_map \<Rightarrow> bool" where
  "buckets_nonempty m = list_all (\<lambda>entry. snd entry \<noteq> []) m"

definition keys_not_nan :: "double_unordered_map \<Rightarrow> bool" where
  "keys_not_nan m = list_all (\<lambda>entry. \<not> isnan (fst entry)) m"

section \<open>Properties of the reductions\<close>

lemma dadd_zero_right: "dadd a (Fin 0) = a"
  by (cases a) simp_all

lemma foldl_skip_all_nan:
  "list_all isnan row \<Longrightarrow> foldl (\<lambda>acc val. if isnan val then acc else step acc val) acc0 row = acc0"
  by (induction row) simp_all

text \<open>
  C3. The claim: the flat \<open>sum\<close> ignores not-a-number entries. The flat \<open>sum\<close> adds every
  entry, so one missing entry makes the total not-a-number: on \<open>[NaN, 1]\<close> it returns
  not-a-number, where the sum of the non-missing entries is 1 (which the 2D \<open>sum\<close>
  and the flat \<open>mean\<close>, which test \<open>isnan\<close>, do compute).
\<close>

theorem sum_vec_propagates_nan:
  "sum_vec [NaN, Fin 1] = NaN \<and> sum_2d [[NaN, Fin 1]] = Fin 1 \<and> mean [NaN, Fin 1] = Fin 1"
  by (simp add: sum_vec_def sum_2d_def mean_def dbl_of_int_def)

text \<open>
  C8. Appending a row all of whose entries are not-a-number changes neither the 2D
  \<open>mean\<close> nor the 2D \<open>variance\<close>.
\<close>

theorem nan_row_keeps_mean_variance:
  "list_all isnan row \<Longrightarrow>
     mean_2d (grid @ [row]) = mean_2d grid \<and> variance_2d (grid @ [row]) = variance_2d grid"
proof -
  assume nan: "list_all isnan row"
  have m: "mean_2d (grid @ [row]) = mean_2d grid"
    unfolding mean_2d_def
    by (simp add: foldl_skip_all_nan [OF nan] dadd_zero_right split: prod.split)
  have "variance_2d (grid @ [row]) = variance_2d grid"
    unfolding variance_2d_def m
    by (simp add: foldl_skip_all_nan [OF nan] Let_def)
  with m show ?thesis by simp
qed

theorem nan_row_keeps_mean_variance_witness:
  "mean_2d ([[Fin 1, NaN], [Fin 3, Fin 4]] @ [[NaN, NaN]]) = mean_2d [[Fin 1, NaN], [Fin 3, Fin 4]]
   \<and> variance_2d ([[Fin 1, NaN], [Fin 3, Fin 4]] @ [[NaN, NaN]]) = variance_2d [[Fin 1, NaN], [Fin 3, Fin 4]]
   \<and> mean_2d [[Fin 1, NaN], [Fin 3, Fin 4]] = Fin (8 / 3)"
  using nan_row_keeps_mean_variance [of "[NaN, NaN]" "[[Fin 1, NaN], [Fin 3, Fin 4]]"]
  by (simp add: mean_2d_def dbl_of_int_def)

section \<open>Properties of the enumerator\<close>

lemma for_each_collect:
  "(\<And>k acc. k \<in> set ks \<Longrightarrow> body k acc = Some (acc @ h k)) \<Longrightarrow>
     for_each ks body acc = Some (acc @ concat (map h ks))"
  by (induction ks arbitrary: acc) simp_all

lemma rectangular_at2:
  "rectangular grid \<Longrightarrow> y < length grid \<Longrightarrow> x < length (hd grid) \<Longrightarrow>
     vec_at2 grid y x = Some (grid ! y ! x)"
  by (simp add: rectangular_def vec_at2_def vec_at_def list_all_length)

lemma rectangular_at0: "rectangular grid \<Longrightarrow> vec_at grid 0 = Some (hd grid)"
  by (cases grid) (simp_all add: rectangular_def vec_at_def)

text \<open>An invariant of the state is kept by a loop whose body keeps it.\<close>

lemma for_each_invariant:
  assumes "\<And>k s s'. P s \<Longrightarrow> body k s = Some s' \<Longrightarrow> P s'"
  shows "P s \<Longrightarrow> for_each ks body s = Some s' \<Longrightarrow> P s'"
proof (induction ks arbitrary: s)
  case Nil
  then show ?case by simp
next
  case (Cons k ks)
  from Cons.prems(2) obtain s1 where s1: "body k s = Some s1" and rest: "for_each ks body s1 = Some s'"
    by (auto split: option.splits)
  from assms [OF Cons.prems(1) s1] rest show ?case
    by (rule Cons.IH)
qed

lemma pair_distance_not_nan: "\<not> isnan (pair_distance x y i j)"
proof -
  have "\<not> real (unat w) < 0" for w :: "64 word"
    by (simp only: not_less of_nat_0_le_iff)
  then show ?thesis
    unfolding pair_distance_def Let_def dsqrt.simps by (simp only: if_False isnan.simps simp_thms)
qed

text \<open>Whatever the shape of the grid, no sample the loops append has a not-a-number distance.\<close>

lemma pair_loops_not_nan:
  assumes "pair_loops grid function height width = Some samples"
  shows "list_all (\<lambda>p. \<not> isnan (fst p)) samples"
proof -
  let ?P = "list_all (\<lambda>p :: dbl \<times> dbl. \<not> isnan (fst p))"
  have "?P []" by simp
  then show ?thesis
    using assms unfolding pair_loops_def
    apply (rule for_each_invariant [where P = ?P, rotated])
    apply (erule for_each_invariant [where P = ?P, rotated], assumption)
    apply (simp split: option.splits if_splits)
    apply (erule for_each_invariant [where P = ?P, rotated], assumption)
    apply (erule for_each_invariant [where P = ?P, rotated], assumption)
    apply (auto simp: pair_distance_not_nan split: option.splits if_splits)
    done
qed

text \<open>On a rectangular grid no subscript is out of range, and the loops collect lists.\<close>

lemma pair_loops_collect:
  assumes r: "rectangular grid"
  shows "pair_loops grid function (length grid) (length (hd grid)) =
     Some (concat (map (\<lambda>y. concat (map (\<lambda>x. if isnan (grid ! y ! x) then []
                                               else inner_samples grid function x y)
                                       [0..<length (hd grid)]))
                       [0..<length grid]))"
proof -
  let ?h = "length grid" and ?w = "length (hd grid)"
  have inner: "for_each [y..<?h] (\<lambda>j.
                 for_each [(if j = y then x else 0)..<?w] (\<lambda>i acc.
                   case vec_at2 grid j i of
                     None \<Rightarrow> None
                   | Some b \<Rightarrow>
                       if isnan b then Some acc
                       else Some (acc @ [(pair_distance x y i j, function a b)]))) acc
        = Some (acc @ concat (map (\<lambda>j. concat (map (\<lambda>i. if isnan (grid ! j ! i) then []
                                          else [(pair_distance x y i j, function a (grid ! j ! i))])
                                  [(if j = y then x else 0)..<?w]))
                 [y..<?h]))" for x y a acc
    by (rule for_each_collect, rule for_each_collect)
       (simp add: rectangular_at2 [OF r])
  show ?thesis
    unfolding pair_loops_def inner
    apply (subst append_Nil [symmetric], rule for_each_collect, rule for_each_collect)
    apply (simp add: rectangular_at2 [OF r] inner_samples_def)
    done
qed

lemma if_swap_not: "(if \<not> c then a else b) = (if c then b else a)"
  by simp

lemma map_if_list: "map f (if c then xs else ys) = (if c then map f xs else map f ys)"
  by simp

lemma samples_visited:
  "concat (map (\<lambda>y. concat (map (\<lambda>x. if isnan (grid ! y ! x) then []
                                               else inner_samples grid function x y)
                                       [0..<length (hd grid)]))
                       [0..<length grid])
   = map (sample_of grid function) (visited_pairs grid)"
  unfolding visited_pairs_def inner_samples_def Let_def sample_of_def
  by (simp add: map_concat comp_def map_if_list if_swap_not cong: if_cong)

lemma pair_loops_visited:
  "rectangular grid \<Longrightarrow>
     pair_loops grid function (length grid) (length (hd grid))
       = Some (map (sample_of grid function) (visited_pairs grid))"
  by (simp add: pair_loops_collect samples_visited)

text \<open>
  On a rectangular grid the enumerator returns the samples of the visited pairs when
  the reservation and the samples fit, and throws otherwise.
\<close>

lemma apply_vector_map_visited:
  assumes "rectangular grid"
  shows "apply_vector_map capacity grid function =
     (if fits capacity grid then Inr (map (sample_of grid function) (visited_pairs grid))
      else Inl Allocation_Failure)"
  using assms
  by (auto simp: apply_vector_map_def rectangular_at0 pair_loops_visited fits_def Let_def)

lemma apply_vector_map_not_nan:
  "apply_vector_map capacity grid function = Inr samples \<Longrightarrow>
     list_all (\<lambda>p. \<not> isnan (fst p)) samples"
  by (auto simp: apply_vector_map_def Let_def pair_loops_not_nan
      split: option.splits if_splits)



lemma set_visited_pairs: "set (visited_pairs grid) = spec_pairs grid"
  unfolding visited_pairs_def spec_pairs_def Let_def
  by (auto split: if_splits)

lemma visited_pairs_2x2:
  assumes "\<not> isnan a" "\<not> isnan b" "\<not> isnan c" "\<not> isnan d"
  shows "visited_pairs [[a, b], [c, d]] =
     [((0, 0), (0, 0)), ((0, 0), (1, 0)), ((0, 0), (0, 1)), ((0, 0), (1, 1)),
      ((1, 0), (1, 0)), ((1, 0), (0, 1)), ((1, 0), (1, 1)),
      ((0, 1), (0, 1)), ((0, 1), (1, 1)),
      ((1, 1), (1, 1))]"
  using assms by (simp add: visited_pairs_def upt_rec)

lemma fits_2x2:
  assumes "\<not> isnan a" "\<not> isnan b" "\<not> isnan c" "\<not> isnan d"
  shows "fits capacity [[a, b], [c, d]] = (10 \<le> capacity)"
  by (auto simp: fits_def visited_pairs_2x2 [OF assms] max_possible_size_def)

lemma subtract_pairs_2x2:
  assumes "\<not> isnan a" "\<not> isnan b" "\<not> isnan c" "\<not> isnan d" and "10 \<le> capacity"
  shows "subtract_pairs capacity [[a, b], [c, d]] =
     Inr [(Fin 0, dabs (dsub a a)), (Fin 1, dabs (dsub a b)), (Fin 1, dabs (dsub a c)),
           (Fin (sqrt 2), dabs (dsub a d)),
           (Fin 0, dabs (dsub b b)), (Fin (sqrt 2), dabs (dsub b c)), (Fin 1, dabs (dsub b d)),
           (Fin 0, dabs (dsub c c)), (Fin 1, dabs (dsub c d)),
           (Fin 0, dabs (dsub d d))]"
proof -
  have "rectangular [[a, b], [c, d]]"
    by (simp add: rectangular_def)
  then show ?thesis
    unfolding subtract_pairs_def
    by (simp add: apply_vector_map_visited fits_2x2 [OF assms(1-4)] assms(5)
        visited_pairs_2x2 [OF assms(1-4)] sample_of_def pair_distance_def)
qed





text \<open>
  C6. The claim: the enumerator returns at most \<open>max_possible_size\<close> samples. The
  self-pairs are samples too, so a grid of \<open>n\<close> cells with no missing entry gives
  \<open>n (n + 1) / 2\<close> samples, more than the \<open>n n / 2\<close> reserved: 10 against 8 on a
  2 by 2 grid, on every machine that has room for the 10.
\<close>

theorem reservation_exceeded:
  "10 \<le> capacity \<Longrightarrow>
     map_sum id length (subtract_pairs capacity [[Fin 1, Fin 2], [Fin 3, Fin 4]]) = Inr 10
     \<and> max_possible_size 2 2 = 8"
  by (simp add: subtract_pairs_2x2 max_possible_size_def)

theorem reservation_exceeded_witness:
  "(10::nat) \<le> 1000
   \<and> map_sum id length (subtract_pairs 1000 [[Fin 1, Fin 2], [Fin 3, Fin 4]]) = Inr 10
   \<and> max_possible_size 2 2 = 8"
  using reservation_exceeded [of 1000] by simp

text \<open>Where the squared distance is below \<open>2^64\<close> the distance of line 114 is exact.\<close>

lemma pair_distance_exact:
  assumes "(int i - int x)\<^sup>2 + (int j - int y)\<^sup>2 < 2 ^ 64"
  shows "pair_distance x y i j = Fin (sqrt (real_of_int ((int i - int x)\<^sup>2 + (int j - int y)\<^sup>2)))"
proof -
  let ?d = "(int i - int x)\<^sup>2 + (int j - int y)\<^sup>2"
  have w: "(word_of_nat i - word_of_nat x) * (word_of_nat i - word_of_nat x)
           + (word_of_nat j - word_of_nat y) * (word_of_nat j - word_of_nat y)
           = (word_of_int ?d :: 64 word)"
    by (simp add: power2_eq_square)
  have nonneg: "0 \<le> ?d" by simp
  have "uint (word_of_int ?d :: 64 word) = ?d mod 2 ^ 64"
    by (simp only: uint_word_of_int len_of_numeral_defs) simp
  also have "\<dots> = ?d"
    using assms nonneg by (rule_tac mod_pos_pos_trivial)
  finally have u: "uint (word_of_int ?d :: 64 word) = ?d" .
  have "unat (word_of_int ?d :: 64 word) = nat ?d"
    by (simp only: unat_eq_nat_uint u)
  then have r: "real (unat (word_of_int ?d :: 64 word)) = real_of_int ?d"
    using nonneg by (simp only: of_nat_nat)
  have "\<not> real_of_int ?d < 0"
    using nonneg by (simp only: of_int_less_0_iff not_less)
  then show ?thesis
    unfolding pair_distance_def Let_def w r dsqrt.simps by (simp only: if_False)
qed

text \<open>
  C5. The claim: the distance of every visited pair is \<open>sqrt ((i - x)^2 + (j - y)^2)\<close>.
  An index difference that wraps around is the negated difference modulo \<open>2^64\<close> and
  its square is right, but the sum of the squares is itself reduced modulo \<open>2^64\<close>. On
  a row of \<open>2^32 + 1\<close> cells whose first and last cells hold a sample, the pair of
  these two cells is visited and its distance is 0, where the two cells are \<open>2^32\<close>
  apart.
\<close>

theorem enumerator_distance_wraps:
  "((0, 0), (4294967296, 0)) \<in> set (visited_pairs wide_grid)
   \<and> fst (sample_of wide_grid (\<lambda>a b. dabs (dsub a b)) ((0, 0), (4294967296, 0))) = Fin 0
   \<and> sqrt (real_of_int ((int 4294967296 - int 0)\<^sup>2 + (int 0 - int 0)\<^sup>2)) = 4294967296"
proof -
  have "((0, 0), (4294967296, 0)) \<in> spec_pairs wide_grid"
    by (simp add: spec_pairs_def wide_grid_def nth_append)
  moreover have "pair_distance 0 0 4294967296 0 = Fin 0"
    by (simp add: pair_distance_def)
  moreover have "sqrt (real_of_int ((int 4294967296 - int 0)\<^sup>2 + (int 0 - int 0)\<^sup>2)) = 4294967296"
    by simp
  ultimately show ?thesis
    by (simp only: set_visited_pairs sample_of_def prod.case fst_conv simp_thms)
qed

section \<open>Properties of the aggregator and of the reducer\<close>

lemma find_key_less: "find_key k m = Some n \<Longrightarrow> n < length m"
  by (induction m arbitrary: n) (auto split: if_splits)

lemma find_key_snoc:
  "find_key k m = None \<Longrightarrow> deq k' k \<Longrightarrow> find_key k (m @ [(k', vs)]) = Some (length m)"
  by (induction m) (auto split: if_splits)

lemma deq_refl: "deq k k = (\<not> isnan k)"
  by (cases k) simp_all

lemma subscript_cases:
  assumes "subscript m k = (m', n)"
  shows "(m' = m \<and> n < length m) \<or> (m' = m @ [(k, [])] \<and> n = length m)"
  using assms by (auto simp: subscript_def find_key_less split: option.splits)

lemma subscript_again:
  assumes "\<not> isnan k" "subscript m k = (m', n)"
  shows "subscript m' k = (m', n)"
  using assms
  by (auto simp: subscript_def find_key_snoc deq_refl split: option.splits)

lemma append_at_nonempty:
  assumes "vs \<noteq> []" "buckets_nonempty m \<or> (\<exists>m0 k. m = m0 @ [(k, [])] \<and> n = length m0 \<and> buckets_nonempty m0)"
    "n < length m"
  shows "buckets_nonempty (append_at m n vs)"
  using assms
  by (auto simp: buckets_nonempty_def append_at_def list_all_length nth_list_update nth_append)

lemma local_insert_nonempty:
  "buckets_nonempty m \<Longrightarrow> buckets_nonempty (local_insert m p)"
proof -
  assume ne: "buckets_nonempty m"
  obtain m' n where s: "subscript m (fst p) = (m', n)"
    by (cases "subscript m (fst p)")
  from subscript_cases [OF s] ne have "buckets_nonempty (append_at m' n [snd p])"
    by (intro append_at_nonempty) auto
  with s show ?thesis by (simp add: local_insert_def)
qed

lemma foldl_local_insert_nonempty:
  "buckets_nonempty m \<Longrightarrow> buckets_nonempty (foldl local_insert m ps)"
  by (induction ps arbitrary: m) (simp_all add: local_insert_nonempty)

lemma append_at_keys: "keys_not_nan m \<Longrightarrow> keys_not_nan (append_at m n vs)"
  by (cases "n < length m")
     (auto simp: keys_not_nan_def append_at_def list_all_length nth_list_update split: if_splits)

lemma local_insert_keys:
  assumes "keys_not_nan m" "\<not> isnan (fst p)"
  shows "keys_not_nan (local_insert m p)"
proof -
  obtain m' n where s: "subscript m (fst p) = (m', n)"
    by (cases "subscript m (fst p)")
  from subscript_cases [OF s] assms have "keys_not_nan m'"
    by (auto simp: keys_not_nan_def)
  with s show ?thesis by (simp add: local_insert_def append_at_keys)
qed

lemma foldl_local_insert_keys:
  "keys_not_nan m \<Longrightarrow> list_all (\<lambda>p. \<not> isnan (fst p)) ps \<Longrightarrow>
     keys_not_nan (foldl local_insert m ps)"
  by (induction ps arbitrary: m) (simp_all add: local_insert_keys)

text \<open>For a key that is a number the two subscripts of the merge give the same bucket.\<close>

lemma merge_bucket_number:
  assumes "\<not> isnan (fst pair)" and "subscript m (fst pair) = (m1, a)"
  shows "merge_bucket m pair = append_at m1 a (snd pair)"
  using subscript_again [OF assms] assms(2) by (simp add: merge_bucket_def)

lemma merge_bucket_nonempty:
  assumes "buckets_nonempty m" "snd pair \<noteq> []" "\<not> isnan (fst pair)"
  shows "buckets_nonempty (merge_bucket m pair)"
proof -
  obtain m1 a where s1: "subscript m (fst pair) = (m1, a)"
    by (cases "subscript m (fst pair)")
  from subscript_cases [OF s1] assms(1,2) have "buckets_nonempty (append_at m1 a (snd pair))"
    by (intro append_at_nonempty) auto
  then show ?thesis
    by (simp add: merge_bucket_number [OF assms(3) s1])
qed

lemma foldl_merge_nonempty:
  "buckets_nonempty local_map \<Longrightarrow> keys_not_nan local_map \<Longrightarrow> buckets_nonempty m \<Longrightarrow>
     buckets_nonempty (foldl merge_bucket m local_map)"
proof (induction local_map arbitrary: m)
  case Nil
  then show ?case by simp
next
  case (Cons pair local_map)
  then have "snd pair \<noteq> []" "\<not> isnan (fst pair)"
    and rest: "buckets_nonempty local_map" "keys_not_nan local_map"
    by (simp_all add: buckets_nonempty_def keys_not_nan_def)
  with Cons.prems(3) have "buckets_nonempty (merge_bucket m pair)"
    by (intro merge_bucket_nonempty)
  with Cons.IH [OF rest] show ?case by simp
qed

lemma regroup_nonempty:
  assumes "list_all (\<lambda>p. \<not> isnan (fst p)) ps" and "buckets_nonempty m"
  shows "buckets_nonempty (regroup_distance_thread_local ps m)"
  unfolding regroup_distance_thread_local_def Let_def
proof (rule foldl_merge_nonempty)
  show "buckets_nonempty (foldl local_insert [] ps)"
    by (rule foldl_local_insert_nonempty) (simp add: buckets_nonempty_def)
  show "keys_not_nan (foldl local_insert [] ps)"
    by (rule foldl_local_insert_keys [OF _ assms(1)]) (simp add: keys_not_nan_def)
  show "buckets_nonempty m"
    by (rule assms(2))
qed

lemma structure_function_eq:
  "structure_function capacity grid order =
     (case subtract_pairs capacity grid of
        Inl e \<Rightarrow> Inl e
      | Inr single \<Rightarrow>
          Inr (foldl (reduce_bucket order (variance_2d grid)) []
                 (regroup_distance_thread_local single [])))"
  by (simp add: structure_function_def structure_function_run_def sf_entry_def sf_enumerate_def
      sf_regroup_def sf_reduce_def split: sum.split)

lemma subtract_pairs_rectangular:
  "rectangular grid \<Longrightarrow> fits capacity grid \<Longrightarrow>
     subtract_pairs capacity grid
       = Inr (map (sample_of grid (\<lambda>a b. dabs (dsub a b))) (visited_pairs grid))"
  by (simp add: subtract_pairs_def apply_vector_map_visited)

lemma structure_function_defined:
  "rectangular grid \<Longrightarrow> fits capacity grid \<Longrightarrow>
     \<exists>rows. structure_function capacity grid order = Inr rows"
  by (simp add: structure_function_eq subtract_pairs_rectangular)

lemma length_pow: "length (pow vals order) = length vals"
  by (simp add: pow_def)

lemma reduce_bucket_rows:
  "foldl (reduce_bucket order v) out m =
     out @ map (row_of order v)
             (filter (\<lambda>entry. \<not> deq (fst entry) (Fin 0) \<and> length (snd entry) \<noteq> 1) m)"
  by (induction m arbitrary: out) (simp_all add: reduce_bucket_def Let_def row_of_def length_pow)

lemma reduce_bucket_eligible:
  "snd entry \<noteq> [] \<Longrightarrow>
     reduce_bucket order v out entry =
       (if deq (fst entry) (Fin 0) \<or> length (snd entry) < 2 then out
        else out @ [row_of order v entry])"
  by (cases "snd entry"; cases "tl (snd entry)")
     (simp_all add: reduce_bucket_def Let_def row_of_def length_pow)

lemma nonempty_bucket_counts:
  assumes "buckets_nonempty m" and "entry \<in> set m"
  shows "snd entry \<noteq> []
        \<and> 1 \<le> int (length (pow (snd entry) order))
        \<and> (int (length (pow (snd entry) order)) = 1) = (length (snd entry) < 2)
        \<and> reduce_bucket order v out entry =
            (if deq (fst entry) (Fin 0) \<or> length (snd entry) < 2 then out
             else out @ [row_of order v entry])"
proof -
  from assms have ne: "snd entry \<noteq> []"
    by (simp add: buckets_nonempty_def list_all_iff)
  then obtain val rest where "snd entry = val # rest"
    by (cases "snd entry") auto
  then have "1 \<le> int (length (pow (snd entry) order))"
    and "(int (length (pow (snd entry) order)) = 1) = (length (snd entry) < 2)"
    unfolding length_pow by auto
  with ne reduce_bucket_eligible [OF ne] show ?thesis by simp
qed

text \<open>
  C10. The claim: for every list of (distance, value) pairs, every bucket of the map of
  the aggregator holds at least one value. For a not-a-number distance the merge
  statement subscripts the map twice and leaves the bucket of the second call empty.
  The amended claim: for every list in which no distance is not-a-number, every bucket
  of the map holds at least one value; the distances of the enumerator are of that kind,
  so every bucket the reducer reads has \<open>N \<ge> 1\<close>, its test \<open>N == 1\<close> holds exactly for
  the buckets of fewer than 2 samples, and it skips exactly the buckets of distance 0 or
  of fewer than 2 samples.
\<close>

theorem aggregator_buckets_nonempty:
  "(list_all (\<lambda>p. \<not> isnan (fst p)) ps \<and> entry \<in> set (regroup_distance_thread_local ps []) \<longrightarrow>
        snd entry \<noteq> [])
   \<and> (subtract_pairs capacity grid = Inr single
        \<and> entry \<in> set (regroup_distance_thread_local single []) \<longrightarrow>
        snd entry \<noteq> []
        \<and> 1 \<le> int (length (pow (snd entry) order))
        \<and> (int (length (pow (snd entry) order)) = 1) = (length (snd entry) < 2)
        \<and> reduce_bucket order v out entry =
            (if deq (fst entry) (Fin 0) \<or> length (snd entry) < 2 then out
             else out @ [row_of order v entry]))"
proof (intro conjI impI)
  have empty: "buckets_nonempty []"
    by (simp add: buckets_nonempty_def)
  {
    assume a: "list_all (\<lambda>p. \<not> isnan (fst p)) ps
        \<and> entry \<in> set (regroup_distance_thread_local ps [])"
    then have "buckets_nonempty (regroup_distance_thread_local ps [])"
      using regroup_nonempty empty by blast
    with a show "snd entry \<noteq> []"
      by (simp add: buckets_nonempty_def list_all_iff)
  }
  assume b: "subtract_pairs capacity grid = Inr single
        \<and> entry \<in> set (regroup_distance_thread_local single [])"
  then have "list_all (\<lambda>p. \<not> isnan (fst p)) single"
    unfolding subtract_pairs_def by (blast intro: apply_vector_map_not_nan)
  then have "buckets_nonempty (regroup_distance_thread_local single [])"
    using regroup_nonempty empty by blast
  from nonempty_bucket_counts [OF this, of entry order v out] b
  show "snd entry \<noteq> []"
    and "1 \<le> int (length (pow (snd entry) order))"
    and "(int (length (pow (snd entry) order)) = 1) = (length (snd entry) < 2)"
    and "reduce_bucket order v out entry =
            (if deq (fst entry) (Fin 0) \<or> length (snd entry) < 2 then out
             else out @ [row_of order v entry])"
    by simp_all
qed

lemma regroup_small:
  "regroup_distance_thread_local [(Fin 1, Fin 2), (Fin 0, Fin 5), (Fin 1, Fin 3)] []
     = [(Fin 1, [Fin 2, Fin 3]), (Fin 0, [Fin 5])]"
  by (simp add: regroup_distance_thread_local_def local_insert_def subscript_def append_at_def
      merge_bucket_def)

lemma subtract_pairs_row: "subtract_pairs 3 [[Fin 1, Fin 3]] = Inr [(Fin 0, Fin 0), (Fin 1, Fin 2), (Fin 0, Fin 0)]"
  by (simp add: subtract_pairs_def apply_vector_map_def pair_loops_def vec_at_def vec_at2_def
      max_possible_size_def pair_distance_def dsub_def upt_rec)

lemma regroup_row:
  "regroup_distance_thread_local [(Fin 0, Fin 0), (Fin 1, Fin 2), (Fin 0, Fin 0)] []
     = [(Fin 0, [Fin 0, Fin 0]), (Fin 1, [Fin 2])]"
  by (simp add: regroup_distance_thread_local_def local_insert_def subscript_def append_at_def
      merge_bucket_def)

theorem aggregator_buckets_nonempty_witness:
  "list_all (\<lambda>p. \<not> isnan (fst p)) [(Fin 1, Fin 2), (Fin 0, Fin 5), (Fin 1, Fin 3)]
   \<and> (Fin 1, [Fin 2, Fin 3])
        \<in> set (regroup_distance_thread_local [(Fin 1, Fin 2), (Fin 0, Fin 5), (Fin 1, Fin 3)] [])
   \<and> snd (Fin 1, [Fin 2, Fin 3]) \<noteq> []
   \<and> subtract_pairs 3 [[Fin 1, Fin 3]] = Inr [(Fin 0, Fin 0), (Fin 1, Fin 2), (Fin 0, Fin 0)]
   \<and> (Fin 1, [Fin 2])
        \<in> set (regroup_distance_thread_local [(Fin 0, Fin 0), (Fin 1, Fin 2), (Fin 0, Fin 0)] [])
   \<and> 1 \<le> int (length (pow (snd (Fin 1, [Fin 2])) 2))
   \<and> reduce_bucket 2 (Fin 1) [] (Fin 1, [Fin 2]) = []"
  using aggregator_buckets_nonempty
    [of "[(Fin 1, Fin 2), (Fin 0, Fin 5), (Fin 1, Fin 3)]" "(Fin 1, [Fin 2, Fin 3])" 0 "[]" "[]"]
    aggregator_buckets_nonempty
    [of "[]" "(Fin 1, [Fin 2])" 3 "[[Fin 1, Fin 3]]"
        "[(Fin 0, Fin 0), (Fin 1, Fin 2), (Fin 0, Fin 0)]" 2 "Fin 1" "[]"]
  by (simp add: regroup_small regroup_row subtract_pairs_row)

theorem aggregator_nan_key_empty_bucket:
  "regroup_distance_thread_local [(NaN, Fin 1)] [] = [(NaN, [Fin 1]), (NaN, [])]
   \<and> (NaN, []) \<in> set (regroup_distance_thread_local [(NaN, Fin 1)] [])"
  by (simp add: regroup_distance_thread_local_def local_insert_def subscript_def append_at_def
      merge_bucket_def)

text \<open>
  C4. Every row \<open>structure_function\<close> returns is the row of a bucket of the regrouped
  map whose key is not 0 and which holds at least 2 samples: no row is returned for
  distance 0 nor for a bucket of fewer than 2 samples.
\<close>

theorem rows_from_eligible_buckets:
  assumes "structure_function capacity grid order = Inr rows" and "row \<in> set rows"
  shows "\<exists>single m entry.
           subtract_pairs capacity grid = Inr single
         \<and> regroup_distance_thread_local single [] = m
         \<and> entry \<in> set m
         \<and> row = row_of order (variance_2d grid) entry
         \<and> \<not> deq (fst entry) (Fin 0) \<and> hd row \<noteq> Fin 0
         \<and> 2 \<le> length (snd entry)"
proof -
  from assms(1) obtain single where s: "subtract_pairs capacity grid = Inr single"
    and rows: "rows = foldl (reduce_bucket order (variance_2d grid)) []
                        (regroup_distance_thread_local single [])"
    by (auto simp: structure_function_eq split: sum.splits)
  let ?m = "regroup_distance_thread_local single []"
  from rows assms(2) obtain entry where e: "entry \<in> set ?m"
    and row: "row = row_of order (variance_2d grid) entry"
    and d: "\<not> deq (fst entry) (Fin 0)" and n: "length (snd entry) \<noteq> 1"
    by (auto simp: reduce_bucket_rows)
  have "list_all (\<lambda>p. \<not> isnan (fst p)) single"
    using s unfolding subtract_pairs_def by (rule apply_vector_map_not_nan)
  moreover have "buckets_nonempty []"
    by (simp add: buckets_nonempty_def)
  ultimately have "buckets_nonempty ?m"
    by (rule regroup_nonempty)
  with e have "snd entry \<noteq> []"
    by (simp add: buckets_nonempty_def list_all_iff)
  with n have two: "2 \<le> length (snd entry)"
    by (cases "snd entry") (auto simp: Suc_le_eq)
  from d have "fst entry \<noteq> Fin 0"
    by auto
  then have "hd row \<noteq> Fin 0"
    by (simp add: row row_of_def)
  with s e row d two show ?thesis by blast
qed

text \<open>
  C9. The body of \<open>structure_function\<close> writes to its own vectors and map only: in the
  state it ends in, the grid is the grid it started from. On a rectangular grid whose
  reservation and samples fit in memory it does end.
\<close>

theorem grid_unchanged:
  "(structure_function_run capacity order s = Inr s' \<longrightarrow> input_array s' = input_array s)
   \<and> (rectangular (input_array s) \<and> fits capacity (input_array s) \<longrightarrow>
        (\<exists>s''. structure_function_run capacity order s = Inr s''
            \<and> input_array s'' = input_array s))"
proof -
  have frame: "input_array t = input_array s"
    if "structure_function_run capacity order s = Inr t" for t
    using that
    by (auto simp: structure_function_run_def sf_enumerate_def sf_regroup_def sf_reduce_def Let_def
        split: sum.splits)
  have "\<exists>t. structure_function_run capacity order s = Inr t"
    if "rectangular (input_array s) \<and> fits capacity (input_array s)"
    using that
    by (simp add: structure_function_run_def sf_enumerate_def subtract_pairs_rectangular)
  with frame show ?thesis by blast
qed

theorem grid_unchanged_witness:
  "rectangular (input_array (sf_entry [[Fin 1, Fin 2], [Fin 3, Fin 4]]))
   \<and> fits 10 (input_array (sf_entry [[Fin 1, Fin 2], [Fin 3, Fin 4]]))
   \<and> (\<exists>s''. structure_function_run 10 1 (sf_entry [[Fin 1, Fin 2], [Fin 3, Fin 4]]) = Inr s''
         \<and> input_array s'' = [[Fin 1, Fin 2], [Fin 3, Fin 4]])"
  using grid_unchanged [of 10 1 "sf_entry [[Fin 1, Fin 2], [Fin 3, Fin 4]]"]
  by (simp add: sf_entry_def rectangular_def fits_2x2)

text \<open>By contrast \<open>subtract_mean\<close> returns another grid.\<close>

lemma subtract_mean_writes: "subtract_mean [[Fin 1, Fin 3]] = Some [[Fin (- 1), Fin 1]]"
  by (simp add: subtract_mean_def vec_at_def vec_at2_def mean_2d_def dbl_of_int_def dsub_def)






section \<open>The worked example\<close>

lemma subtract_pairs_example:
  "10 \<le> capacity \<Longrightarrow>
   subtract_pairs capacity [[Fin 1, Fin 2], [Fin 3, Fin 4]] =
     Inr [(Fin 0, Fin 0), (Fin 1, Fin 1), (Fin 1, Fin 2), (Fin (sqrt 2), Fin 3),
           (Fin 0, Fin 0), (Fin (sqrt 2), Fin 1), (Fin 1, Fin 2),
           (Fin 0, Fin 0), (Fin 1, Fin 1), (Fin 0, Fin 0)]"
  by (simp add: subtract_pairs_2x2 dsub_def)

lemma regroup_example:
  "regroup_distance_thread_local
        [(Fin 0, Fin 0), (Fin 1, Fin 1), (Fin 1, Fin 2), (Fin (sqrt 2), Fin 3),
         (Fin 0, Fin 0), (Fin (sqrt 2), Fin 1), (Fin 1, Fin 2),
         (Fin 0, Fin 0), (Fin 1, Fin 1), (Fin 0, Fin 0)] []
    = [(Fin 0, [Fin 0, Fin 0, Fin 0, Fin 0]), (Fin 1, [Fin 1, Fin 2, Fin 2, Fin 1]),
       (Fin (sqrt 2), [Fin 3, Fin 1])]"
  by (simp add: regroup_distance_thread_local_def local_insert_def subscript_def append_at_def
      merge_bucket_def)

lemma variance_example: "variance_2d [[Fin 1, Fin 2], [Fin 3, Fin 4]] = Fin (5 / 4)"
  by (simp add: variance_2d_def mean_2d_def dbl_of_int_def dsub_def)

lemma mean_example: "mean [Fin 1, Fin 2, Fin 2, Fin 1] = Fin (3 / 2)" "mean [Fin 3, Fin 1] = Fin 2"
  by (simp_all add: mean_def dbl_of_int_def)

lemma standard_deviation_example:
  "standard_deviation [Fin 1, Fin 2, Fin 2, Fin 1] = Fin (1 / 2)"
  "standard_deviation [Fin 3, Fin 1] = Fin 1"
  by (simp_all add: standard_deviation_def variance_def mean_example dbl_of_int_def dsub_def
      real_sqrt_divide)

lemma structure_function_rows_example:
  "10 \<le> capacity \<Longrightarrow>
   structure_function capacity [[Fin 1, Fin 2], [Fin 3, Fin 4]] 1
     = Inr [[Fin 1, Fin (6 / 5), Fin ((1 / 2) / (5 / 4 * sqrt 3))],
            [Fin (sqrt 2), Fin (8 / 5), Fin (4 / 5)]]"
  by (simp add: structure_function_eq subtract_pairs_example regroup_example variance_example
      reduce_bucket_def pow_def mean_example standard_deviation_example dbl_of_int_def)

theorem rows_from_eligible_buckets_witness:
  "structure_function 10 [[Fin 1, Fin 2], [Fin 3, Fin 4]] 1
     = Inr [[Fin 1, Fin (6 / 5), Fin ((1 / 2) / (5 / 4 * sqrt 3))],
            [Fin (sqrt 2), Fin (8 / 5), Fin (4 / 5)]]
   \<and> (\<exists>single m entry.
           subtract_pairs 10 [[Fin 1, Fin 2], [Fin 3, Fin 4]] = Inr single
         \<and> regroup_distance_thread_local single [] = m
         \<and> entry \<in> set m
         \<and> [Fin (sqrt 2), Fin (8 / 5), Fin (4 / 5)]
             = row_of 1 (variance_2d [[Fin 1, Fin 2], [Fin 3, Fin 4]]) entry
         \<and> \<not> deq (fst entry) (Fin 0) \<and> hd [Fin (sqrt 2), Fin (8 / 5), Fin (4 / 5)] \<noteq> Fin 0
         \<and> 2 \<le> length (snd entry))"
proof -
  have rows: "structure_function 10 [[Fin 1, Fin 2], [Fin 3, Fin 4]] 1
     = Inr [[Fin 1, Fin (6 / 5), Fin ((1 / 2) / (5 / 4 * sqrt 3))],
            [Fin (sqrt 2), Fin (8 / 5), Fin (4 / 5)]]"
    by (rule structure_function_rows_example) simp
  have row: "[Fin (sqrt 2), Fin (8 / 5), Fin (4 / 5)]
      \<in> set [[Fin 1, Fin (6 / 5), Fin ((1 / 2) / (5 / 4 * sqrt 3))],
              [Fin (sqrt 2), Fin (8 / 5), Fin (4 / 5)]]"
    by simp
  from rows_from_eligible_buckets [OF rows row] rows show ?thesis
    by (rule_tac conjI)
qed

text \<open>
  C1. On the grid \<open>[[1, 2], [3, 4]]\<close> with order 1 (and room for its 10 samples),
  \<open>structure_function\<close> returns two rows: distance 1 with structure value 1.2 and
  uncertainty \<open>0.5 / (1.25 * sqrt 3)\<close>, and distance \<open>sqrt 2\<close> with structure value 1.6
  and uncertainty \<open>1 / (1.25 * sqrt 1) = 0.8\<close>. The buckets are \<open>{1, 2, 2, 1}\<close> and
  \<open>{3, 1}\<close>, of means 1.5 and 2 and of standard deviations 0.5 and 1, and the variance
  of the grid is 1.25.
\<close>

theorem structure_function_example:
  "10 \<le> capacity \<Longrightarrow>
   map_sum id mset (structure_function capacity [[Fin 1, Fin 2], [Fin 3, Fin 4]] 1)
     = Inr {#[Fin 1, Fin (12 / 10), Fin ((5 / 10) / ((125 / 100) * sqrt (4 - 1)))],
             [Fin (sqrt 2), Fin (16 / 10), Fin (8 / 10)]#}
   \<and> variance_2d [[Fin 1, Fin 2], [Fin 3, Fin 4]] = Fin (125 / 100)
   \<and> mean [Fin 1, Fin 2, Fin 2, Fin 1] = Fin (15 / 10) \<and> mean [Fin 3, Fin 1] = Fin 2
   \<and> standard_deviation [Fin 1, Fin 2, Fin 2, Fin 1] = Fin (5 / 10)
   \<and> standard_deviation [Fin 3, Fin 1] = Fin 1
   \<and> ddiv (Fin (15 / 10)) (Fin (125 / 100)) = Fin (12 / 10)
   \<and> ddiv (Fin 2) (Fin (125 / 100)) = Fin (16 / 10)
   \<and> ddiv (Fin 1) (dmul (Fin (125 / 100)) (dsqrt (dbl_of_int (2 - 1)))) = Fin (8 / 10)
   \<and> (\<exists>single. subtract_pairs capacity [[Fin 1, Fin 2], [Fin 3, Fin 4]] = Inr single
        \<and> regroup_distance_thread_local single []
            = [(Fin 0, [Fin 0, Fin 0, Fin 0, Fin 0]), (Fin 1, [Fin 1, Fin 2, Fin 2, Fin 1]),
               (Fin (sqrt 2), [Fin 3, Fin 1])])"
proof -
  assume c: "10 \<le> capacity"
  have "\<exists>single. subtract_pairs capacity [[Fin 1, Fin 2], [Fin 3, Fin 4]] = Inr single
        \<and> regroup_distance_thread_local single []
            = [(Fin 0, [Fin 0, Fin 0, Fin 0, Fin 0]), (Fin 1, [Fin 1, Fin 2, Fin 2, Fin 1]),
               (Fin (sqrt 2), [Fin 3, Fin 1])]"
    using subtract_pairs_example [OF c] regroup_example by simp
  then show ?thesis
    by (simp add: structure_function_rows_example [OF c] variance_example mean_example
        standard_deviation_example dbl_of_int_def)
qed

theorem structure_function_example_witness:
  "(10::nat) \<le> 10
   \<and> map_sum id mset (structure_function 10 [[Fin 1, Fin 2], [Fin 3, Fin 4]] 1)
     = Inr {#[Fin 1, Fin (12 / 10), Fin ((5 / 10) / ((125 / 100) * sqrt (4 - 1)))],
             [Fin (sqrt 2), Fin (16 / 10), Fin (8 / 10)]#}"
  using structure_function_example [of 10] by simp

end
